theory Spec2Isabelle
  imports Complex_Main
begin

section \<open>Python values, errors and the command link\<close>

text \<open>
  The driver in \<^verbatim>\<open>instruments/tektronix/tektds224.py\<close> turns property accesses into
  SCPI commands. Every raise of the source is a value of \<open>error\<close>; a computation takes
  the state of the link and returns its result (or the error) together with the new
  state, so that what was sent before a failure stays visible.
\<close>

datatype error = ValueError | TypeError | IndexError | AttributeError | IOError

text \<open>
  The instrument at the other end of the link (an external collaborator of the driver),
  seen from the driver: \<open>sent\<close> is every message written to the link, oldest first;
  \<open>regs\<close> holds the instrument's settings, header to argument text; \<open>curve_text\<close> is the
  line it answers to \<^verbatim>\<open>CURVE?\<close> when read as text, \<open>curve_bytes\<close> the bytes it
  transmits for \<^verbatim>\<open>CURVE?\<close> when read as a binary block.
\<close>

record device =
  sent :: "string list"
  regs :: "string \<Rightarrow> string option"
  curve_text :: string
  curve_bytes :: string

type_synonym 'a io = "device \<Rightarrow> (error + 'a) \<times> device"

definition io_return :: "'a \<Rightarrow> 'a io" where
  "io_return x = (\<lambda>d. (Inr x, d))"

definition io_raise :: "error \<Rightarrow> 'a io" where
  "io_raise e = (\<lambda>d. (Inl e, d))"

definition io_bind :: "'a io \<Rightarrow> ('a \<Rightarrow> 'b io) \<Rightarrow> 'b io" where
  "io_bind m f = (\<lambda>d. case m d of (Inl e, d') \<Rightarrow> (Inl e, d') | (Inr x, d') \<Rightarrow> f x d')"

definition io_lift :: "error \<Rightarrow> 'a option \<Rightarrow> 'a io" where
  "io_lift e v = (case v of None \<Rightarrow> io_raise e | Some x \<Rightarrow> io_return x)"

subsection \<open>The link\<close>

text \<open>
  Modelled from the spec: \<^verbatim>\<open>sendcmd\<close> and \<^verbatim>\<open>query\<close> belong to the generic
  instrument layer, which is not part of this file of the driver. The spec's wire table
  pairs every setting \<^verbatim>\<open>HDR <arg>\<close> with its query \<^verbatim>\<open>HDR?\<close>: a command with an
  argument stores the argument under its header, a query reads the header back, and a
  query the instrument has no answer for ends in the link's timeout (\<open>IOError\<close>).
\<close>

definition store :: "string \<Rightarrow> device \<Rightarrow> device" where
  "store c d =
     (case dropWhile (\<lambda>x. x \<noteq> CHR '' '') c of
        [] \<Rightarrow> d
      | _ # arg \<Rightarrow> d\<lparr>regs := (regs d)(takeWhile (\<lambda>x. x \<noteq> CHR '' '') c \<mapsto> arg)\<rparr>)"

definition sendcmd :: "string \<Rightarrow> unit io" where
  "sendcmd c = (\<lambda>d. (Inr (), store c (d\<lparr>sent := sent d @ [c]\<rparr>)))"

definition answer :: "device \<Rightarrow> string \<Rightarrow> string option" where
  "answer d q =
     (if q = ''CURVE?'' then Some (curve_text d)
      else if q \<noteq> [] \<and> last q = CHR ''?'' then regs d (butlast q)
      else None)"

definition query :: "string \<Rightarrow> string io" where
  "query q = (\<lambda>d. (case answer d q of None \<Rightarrow> Inl IOError | Some r \<Rightarrow> Inr r,
                    d\<lparr>sent := sent d @ [q]\<rparr>))"

subsection \<open>Python's \<^verbatim>\<open>str\<close>, \<^verbatim>\<open>int\<close> and \<^verbatim>\<open>float\<close>\<close>

definition digit_char :: "nat \<Rightarrow> char" where
  "digit_char n = ''0123456789'' ! (n mod 10)"

fun digits :: "nat \<Rightarrow> string" where
  "digits n = (if n < 10 then [digit_char n] else digits (n div 10) @ [digit_char n])"

declare digits.simps [simp del]

text \<open>\<^verbatim>\<open>"{}".format(n)\<close> for an integer \<open>n\<close>.\<close>

definition str_int :: "int \<Rightarrow> string" where
  "str_int n = (if n < 0 then CHR ''-'' # digits (nat (- n)) else digits (nat n))"

definition is_digit :: "char \<Rightarrow> bool" where
  "is_digit c = (c \<in> set ''0123456789'')"

definition is_space :: "char \<Rightarrow> bool" where
  "is_space c = (c \<in> set [CHR '' '', CHR 0x09, CHR 0x0A, CHR 0x0B, CHR 0x0C, CHR 0x0D])"

definition strip :: "string \<Rightarrow> string" where
  "strip s = rev (dropWhile is_space (rev (dropWhile is_space s)))"

definition digit_val :: "char \<Rightarrow> nat" where
  "digit_val c = of_char c - 48"

definition nat_of_digits :: "string \<Rightarrow> nat" where
  "nat_of_digits s = foldl (\<lambda>a c. 10 * a + digit_val c) 0 s"

text \<open>An optional sign: whether it is a minus, and the remaining text.\<close>

definition take_sign :: "string \<Rightarrow> bool \<times> string" where
  "take_sign s =
     (case s of
        [] \<Rightarrow> (False, [])
      | c # r \<Rightarrow> if c = CHR ''-'' then (True, r)
                 else if c = CHR ''+'' then (False, r) else (False, s))"

text \<open>
  \<^verbatim>\<open>int(s)\<close> for a string: surrounding whitespace, an optional sign, one or more decimal
  digits; anything else is a \<^verbatim>\<open>ValueError\<close> (\<open>None\<close>). Digit-group underscores, which
  only some Python versions accept, are not accepted here.
\<close>

definition py_int :: "string \<Rightarrow> int option" where
  "py_int s =
     (let (neg, u) = take_sign (strip s)
      in if u \<noteq> [] \<and> list_all is_digit u
         then Some (if neg then - int (nat_of_digits u) else int (nat_of_digits u))
         else None)"

text \<open>
  \<^verbatim>\<open>float(s)\<close> for a string, on the finite decimal literals: surrounding whitespace, an
  optional sign, digits with an optional fraction (\<^verbatim>\<open>12\<close>, \<^verbatim>\<open>12.5\<close>, \<^verbatim>\<open>12.\<close>,
  \<^verbatim>\<open>.5\<close>), an optional exponent (\<^verbatim>\<open>e-6\<close>, \<^verbatim>\<open>E+03\<close>). A Python float is modelled
  by the rational number the literal denotes, and float arithmetic by exact arithmetic:
  the rounding of the machine is not part of the model, and neither are \<^verbatim>\<open>inf\<close> and
  \<^verbatim>\<open>nan\<close>, which have no rational value (their literals are \<open>None\<close> here).
\<close>

definition scale10 :: "rat \<Rightarrow> int \<Rightarrow> rat" where
  "scale10 x e = (if 0 \<le> e then x * 10 ^ nat e else x / 10 ^ nat (- e))"

definition py_exponent :: "string \<Rightarrow> int option" where
  "py_exponent s =
     (case s of
        [] \<Rightarrow> Some 0
      | c # r \<Rightarrow> if c = CHR ''e'' \<or> c = CHR ''E''
                 then (let (neg, u) = take_sign r
                       in if u \<noteq> [] \<and> list_all is_digit u
                          then Some (if neg then - int (nat_of_digits u)
                                     else int (nat_of_digits u))
                          else None)
                 else None)"

definition py_float :: "string \<Rightarrow> rat option" where
  "py_float s =
     (let (neg, u) = take_sign (strip s);
          ip = takeWhile is_digit u;
          r1 = dropWhile is_digit u;
          fp = (case r1 of [] \<Rightarrow> [] | c # r \<Rightarrow> if c = CHR ''.'' then takeWhile is_digit r else []);
          r2 = (case r1 of [] \<Rightarrow> [] | c # r \<Rightarrow> if c = CHR ''.'' then dropWhile is_digit r else r1)
      in if ip = [] \<and> fp = [] then None
         else (case py_exponent r2 of
                 None \<Rightarrow> None
               | Some e \<Rightarrow>
                   (let m = of_nat (nat_of_digits ip)
                            + of_nat (nat_of_digits fp) / 10 ^ length fp
                    in Some (scale10 (if neg then - m else m) e))))"

text \<open>\<^verbatim>\<open>s.startswith(p)\<close>, \<^verbatim>\<open>s.split(c)\<close> for a one-character separator, and
  \<^verbatim>\<open>s.replace(old, new)\<close>: every occurrence of \<open>old\<close>, left to right, without overlap;
  an empty \<open>old\<close> matches before every character and at the end.\<close>

definition startswith :: "string \<Rightarrow> string \<Rightarrow> bool" where
  "startswith s p = (take (length p) s = p)"

fun split :: "char \<Rightarrow> string \<Rightarrow> string list" where
  "split c [] = [[]]"
| "split c (x # xs) =
     (if x = c then [] # split c xs
      else (case split c xs of [] \<Rightarrow> [[x]] | w # ws \<Rightarrow> (x # w) # ws))"

function replace :: "string \<Rightarrow> string \<Rightarrow> string \<Rightarrow> string" where
  "replace old new s =
     (if old = [] then new @ concat (map (\<lambda>c. c # new) s)
      else if s = [] then []
      else if take (length old) s = old then new @ replace old new (drop (length old) s)
      else hd s # replace old new (tl s))"
  by pat_completeness auto
termination
  by (relation "measure (\<lambda>(old, new, s). length s)") (auto simp: neq_Nil_conv)

declare replace.simps [simp del]

section \<open>Channels and data sources\<close>

text \<open>
  \<^verbatim>\<open>TekTDS224.Coupling\<close>, with the value of each member; \<open>Coupling_of\<close> is the call
  \<^verbatim>\<open>TekTDS224.Coupling(s)\<close>, the member whose value is \<open>s\<close> (\<^verbatim>\<open>ValueError\<close> when
  there is none).
\<close>

datatype Coupling = ac | dc | ground

fun Coupling_value :: "Coupling \<Rightarrow> string" where
  "Coupling_value ac = ''AC''"
| "Coupling_value dc = ''DC''"
| "Coupling_value ground = ''GND''"

definition Coupling_of :: "string \<Rightarrow> Coupling option" where
  "Coupling_of s = find (\<lambda>c. Coupling_value c = s) [ac, dc, ground]"

text \<open>
  The units of the \<^verbatim>\<open>quantities\<close> package that the driver names, by their names there:
  \<^verbatim>\<open>pq.V\<close> is the volt, \<^verbatim>\<open>pq.Hz\<close> the hertz, \<^verbatim>\<open>pq.s\<close> the second and \<^verbatim>\<open>pq.S\<close>,
  with a capital letter, the siemens; \<^verbatim>\<open>pq.ms\<close>, \<^verbatim>\<open>pq.us\<close> and \<^verbatim>\<open>pq.ns\<close> are the
  usual fractions of a second. A quantity is a magnitude with its unit.
\<close>

datatype pq_unit = pq_V | pq_Hz | pq_s | pq_S | pq_ms | pq_us | pq_ns

datatype quantity = Quantity rat pq_unit

text \<open>What a caller may hand to a setter: a member of \<open>Coupling\<close>, or something else.\<close>

datatype pyval = PyCoupling Coupling | PyStr string | PyInt int | PyFloat rat | PyNone

text \<open>
  A data source is known by its name; a channel (\<^verbatim>\<open>_TekTDS224Channel\<close>) also keeps its
  1-based index \<^verbatim>\<open>_idx\<close>. \<open>new_Channel idx\<close> is the constructor, given the 0-based index.
\<close>

datatype source = DataSource string | Channel string int

fun name_of :: "source \<Rightarrow> string" where
  "name_of (DataSource n) = n"
| "name_of (Channel n i) = n"

definition new_Channel :: "int \<Rightarrow> source" where
  "new_Channel idx = Channel (''CH'' @ str_int (idx + 1)) (idx + 1)"

text \<open>\<^verbatim>\<open>_TekTDS224Channel.coupling\<close>, for the channel with 1-based index \<open>idx\<close>.\<close>

definition get_coupling :: "int \<Rightarrow> Coupling io" where
  "get_coupling idx =
     io_bind (query (''CH'' @ str_int idx @ '':COUPL?''))
       (\<lambda>r. io_lift ValueError (Coupling_of r))"

definition set_coupling :: "int \<Rightarrow> pyval \<Rightarrow> unit io" where
  "set_coupling idx newval =
     (case newval of
        PyCoupling c \<Rightarrow> sendcmd (''CH'' @ str_int idx @ '':COUPL '' @ Coupling_value c)
      | _ \<Rightarrow> io_raise TypeError)"

text \<open>
  The measurement catalog of \<^verbatim>\<open>TekTDS224\<close>: \<^verbatim>\<open>MeasurementTypes\<close> (name to code) and
  \<^verbatim>\<open>MeasurementUnits\<close> (name to unit), entry by entry as the source has them.
\<close>

definition MeasurementTypes :: "(string \<times> string) list" where
  "MeasurementTypes =
     [(''cyclic_rms'', ''CRM''), (''fall_time'', ''FAL''),
      (''frequency'', ''FREQ''), (''maximum'', ''MAXI''), (''mean'', ''MEAN''),
      (''minimum'', ''MINI''), (''negative_width'', ''NWI''),
      (''none'', ''NON''), (''peak_peak'', ''PK2''),
      (''period'', ''PERI''), (''positive_width'', ''PWI''),
      (''rise_time'', ''RIS'')]"

definition MeasurementUnits :: "(string \<times> pq_unit) list" where
  "MeasurementUnits =
     [(''cyclic_rms'', pq_V), (''fall_time'', pq_S),
      (''frequency'', pq_Hz), (''maximum'', pq_V), (''mean'', pq_V),
      (''minimum'', pq_V), (''negative_width'', pq_S),
      (''peak_peak'', pq_V),
      (''period'', pq_S), (''positive_width'', pq_S),
      (''rise_time'', pq_S)]"

text \<open>\<^verbatim>\<open>_TekTDS224Channel.measurement\<close>; \<^verbatim>\<open>float(response)*units\<close> is the quantity.\<close>

definition measurement :: "int \<Rightarrow> string \<Rightarrow> pq_unit \<Rightarrow> quantity io" where
  "measurement idx meas units =
     io_bind (sendcmd (''MEASU:IMM:SOU '' @ str_int idx)) (\<lambda>_.
     io_bind (sendcmd (''MEASU:IMM:TYP '' @ meas)) (\<lambda>_.
     io_bind (query ''MEASU:IMM:VAL?'') (\<lambda>response.
     io_bind (io_lift ValueError (py_float response)) (\<lambda>v.
     io_return (Quantity v units)))))"

text \<open>
  \<^verbatim>\<open>_set_measurements\<close> gives the channel one attribute per catalog name that has a
  unit: the partial application of \<open>measurement\<close> to the name's code and unit. The
  attributes are the same for every channel, so they are kept as a table, and
  \<open>channel_attr idx key\<close> is the call \<^verbatim>\<open>channel.<key>()\<close>.
\<close>

definition set_measurements :: "(string \<times> string \<times> pq_unit) list" where
  "set_measurements =
     concat (map (\<lambda>(key, value).
                    case map_of MeasurementUnits key of
                      None \<Rightarrow> []
                    | Some u \<Rightarrow> [(key, value, u)]) MeasurementTypes)"

definition channel_attr :: "int \<Rightarrow> string \<Rightarrow> quantity io" where
  "channel_attr idx key =
     (case map_of set_measurements key of
        None \<Rightarrow> io_raise AttributeError
      | Some (value, u) \<Rightarrow> measurement idx value u)"

section \<open>The instrument facade\<close>

text \<open>
  \<^verbatim>\<open>TekTDS224.data_source\<close>. The setter is given a data source object, which has a
  \<^verbatim>\<open>name\<close> and no \<^verbatim>\<open>value\<close>; the pause after the command is not modelled.
\<close>

definition get_data_source :: "source io" where
  "get_data_source =
     io_bind (query ''DAT:SOU?'') (\<lambda>name.
       if startswith name ''CH''
       then io_bind (io_lift ValueError (py_int (drop 2 name)))
              (\<lambda>k. io_return (new_Channel (k - 1)))
       else io_return (DataSource name))"

definition set_data_source :: "source \<Rightarrow> unit io" where
  "set_data_source newval = sendcmd (''DAT:SOU '' @ name_of newval)"

text \<open>
  \<^verbatim>\<open>TekTDS224.data_width\<close>, getter and setter. The setter is given an integer
  (\<^verbatim>\<open>int(newval)\<close> is then \<open>newval\<close> itself).
\<close>

definition get_data_width :: "int io" where
  "get_data_width = io_bind (query ''DATA:WIDTH?'') (\<lambda>r. io_lift ValueError (py_int r))"

definition set_data_width :: "int \<Rightarrow> unit io" where
  "set_data_width newval =
     (if newval \<notin> set [1, 2] then io_raise ValueError
      else sendcmd (''DATA:WIDTH '' @ str_int newval))"

text \<open>
  \<^verbatim>\<open>TekTDS224.measurement\<close>, the list of the measurements that are set up. Each entry of
  the result is a dictionary with the keys \<^verbatim>\<open>channel\<close> and \<^verbatim>\<open>measurement_type\<close>.
  \<open>measurement_rows parts is\<close> is the loop over the group indices \<open>is\<close>: the channel is
  converted first, then the first catalog name with the group's code is taken
  (\<^verbatim>\<open>IndexError\<close> when no name has it). With \<open>i < len(parts) div 3\<close> both indices are
  in range.
\<close>

record measurement_entry =
  channel :: rat
  measurement_type :: string

fun measurement_rows :: "string list \<Rightarrow> nat list \<Rightarrow> error + measurement_entry list" where
  "measurement_rows parts [] = Inr []"
| "measurement_rows parts (i # is) =
     (case py_float (replace ''CH'' [] (parts ! (i * 3 + 2))) of
        None \<Rightarrow> Inl ValueError
      | Some ch \<Rightarrow>
          (case [key. (key, value) \<leftarrow> MeasurementTypes, value = parts ! (i * 3)] of
             [] \<Rightarrow> Inl IndexError
           | m # _ \<Rightarrow>
               (case measurement_rows parts is of
                  Inl e \<Rightarrow> Inl e
                | Inr rest \<Rightarrow> Inr (\<lparr>channel = ch, measurement_type = m\<rparr> # rest))))"

definition tek_measurement :: "measurement_entry list io" where
  "tek_measurement =
     io_bind (query ''MEASU?'') (\<lambda>response.
       let response_parts = split CHR '';'' response
       in (case measurement_rows response_parts [0..<length response_parts div 3] of
             Inl e \<Rightarrow> io_raise e
           | Inr ms \<Rightarrow> io_return ms))"

text \<open>
  \<^verbatim>\<open>"{:.1E}".format(x)\<close>: the sign, the two-digit decimal nearest to \<open>x\<close> (a tie goes to
  the even digit) written as \<^verbatim>\<open>d.dE\<close> and the exponent with its sign and at least two
  digits. \<open>exponent10 a\<close> is the \<open>e\<close> with \<open>10 ^ e \<le> a < 10 ^ (e + 1)\<close>, found by
  dividing or multiplying by ten.
\<close>

function norm_up :: "rat \<Rightarrow> int \<Rightarrow> int" where
  "norm_up a e = (if 10 \<le> a then norm_up (a / 10) (e + 1) else e)"
  by pat_completeness auto
termination
proof (relation "measure (\<lambda>(a, e). nat \<lfloor>a\<rfloor>)")
  show "wf (measure (\<lambda>(a::rat, e::int). nat \<lfloor>a\<rfloor>))" by simp
next
  fix a :: rat and e :: int
  assume a: "10 \<le> a"
  then have "a / 10 \<le> a - 9" by simp
  then have "\<lfloor>a / 10\<rfloor> \<le> \<lfloor>a - 9\<rfloor>" by (rule floor_mono)
  also have "\<lfloor>a - 9\<rfloor> = \<lfloor>a\<rfloor> - 9" by simp
  finally have "\<lfloor>a / 10\<rfloor> < \<lfloor>a\<rfloor>" by simp
  moreover have "0 < \<lfloor>a\<rfloor>" using a by simp
  ultimately show "((a / 10, e + 1), (a, e)) \<in> measure (\<lambda>(a, e). nat \<lfloor>a\<rfloor>)" by simp
qed

function norm_down :: "rat \<Rightarrow> int \<Rightarrow> int" where
  "norm_down a e = (if 0 < a \<and> a < 1 then norm_down (a * 10) (e - 1) else e)"
  by pat_completeness auto
termination
proof (relation "measure (\<lambda>(a, e). nat \<lceil>1 / a\<rceil>)")
  show "wf (measure (\<lambda>(a::rat, e::int). nat \<lceil>1 / a\<rceil>))" by simp
next
  fix a :: rat and e :: int
  assume a: "0 < a \<and> a < 1"
  define c where "c = \<lceil>1 / a\<rceil>"
  from a have "1 < 1 / a" by simp
  then have c2: "2 \<le> c" unfolding c_def by (simp add: le_ceiling_iff)
  then have c2r: "(2::rat) \<le> of_int c" by linarith
  have "1 / (a * 10) = (1 / a) / 10" by simp
  also have "\<dots> \<le> of_int c / 10" unfolding c_def by (simp add: le_of_int_ceiling)
  also have "\<dots> \<le> of_int c - 1" using c2r by linarith
  also have "\<dots> = of_int (c - 1)" by simp
  finally have "\<lceil>1 / (a * 10)\<rceil> \<le> c - 1" by (simp only: ceiling_le_iff)
  with c2 a show "((a * 10, e - 1), (a, e)) \<in> measure (\<lambda>(a, e). nat \<lceil>1 / a\<rceil>)"
    unfolding c_def by simp
qed

declare norm_up.simps [simp del] norm_down.simps [simp del]

definition exponent10 :: "rat \<Rightarrow> int" where
  "exponent10 a = (if 1 \<le> a then norm_up a 0 else norm_down a 0)"

definition round_half_even :: "rat \<Rightarrow> int" where
  "round_half_even r =
     (let f = \<lfloor>r\<rfloor>; d = r - of_int f
      in if d < 1 / 2 then f else if 1 / 2 < d then f + 1
         else if even f then f else f + 1)"

definition format_1E :: "rat \<Rightarrow> string" where
  "format_1E x =
     (if x = 0 then ''0.0E+00''
      else
        (let a = \<bar>x\<bar>;
             e0 = exponent10 a;
             m0 = round_half_even (scale10 a (1 - e0));
             m = (if m0 = 100 then 10 else m0);
             e = (if m0 = 100 then e0 + 1 else e0);
             ds = digits (nat \<bar>e\<bar>)
         in (if x < 0 then ''-'' else [])
            @ [digit_char (nat (m div 10)), CHR ''.'', digit_char (nat (m mod 10)), CHR ''E'']
            @ (if e < 0 then ''-'' else ''+'')
            @ (if length ds < 2 then CHR ''0'' # ds else ds)))"

text \<open>
  Modelled from the spec: \<^verbatim>\<open>assume_units\<close> is a helper of the package that is not in
  this file of the driver, and \<^verbatim>\<open>rescale\<close> belongs to \<^verbatim>\<open>quantities\<close>. The spec has
  the setter accept a physical time quantity and normalize it to seconds: a bare number
  is taken to be in the given unit, a quantity keeps its own, and a quantity that is not
  a time cannot be rescaled to seconds (\<^verbatim>\<open>ValueError\<close>).
\<close>

datatype scalar = Bare rat | Qty quantity

definition assume_units :: "scalar \<Rightarrow> pq_unit \<Rightarrow> quantity" where
  "assume_units v u = (case v of Bare x \<Rightarrow> Quantity x u | Qty q \<Rightarrow> q)"

fun seconds_in :: "pq_unit \<Rightarrow> rat option" where
  "seconds_in pq_s = Some 1"
| "seconds_in pq_ms = Some (1 / 1000)"
| "seconds_in pq_us = Some (1 / 1000000)"
| "seconds_in pq_ns = Some (1 / 1000000000)"
| "seconds_in _ = None"

fun rescale_s :: "quantity \<Rightarrow> error + rat" where
  "rescale_s (Quantity x u) =
     (case seconds_in u of None \<Rightarrow> Inl ValueError | Some k \<Rightarrow> Inr (x * k))"

text \<open>\<^verbatim>\<open>TekTDS224.time_scale\<close>, the setter.\<close>

definition set_time_scale :: "scalar \<Rightarrow> unit io" where
  "set_time_scale new_val =
     (case rescale_s (assume_units new_val pq_s) of
        Inl e \<Rightarrow> io_raise e
      | Inr val \<Rightarrow> sendcmd (''HORizontal:MAIn:SCAle '' @ format_1E val))"

section \<open>Waveform acquisition\<close>

text \<open>
  The two values \<^verbatim>\<open>raw\<close> can hold when line 99 is reached. On the binary path it is
  the integer array that \<^verbatim>\<open>binblockread\<close> returns. On the ASCII path the file's
  \<^verbatim>\<open>map\<close> is the one imported from \<^verbatim>\<open>builtins\<close> (line 13), which is lazy: it returns
  an iterator, \<^verbatim>\<open>float\<close> has been applied to no token yet, and \<^verbatim>\<open>np.array\<close> of an
  iterator is not the array of its elements but an array of no dimension that holds the
  iterator object itself. \<open>MapObject\<close> is that array, with the tokens the iterator would
  have read. Subtracting a float from it is a \<^verbatim>\<open>TypeError\<close>.
\<close>

datatype ndarray = IntArray "int list" | MapObject "string list"

definition nd_sub :: "ndarray \<Rightarrow> rat \<Rightarrow> error + rat list" where
  "nd_sub a c =
     (case a of
        IntArray xs \<Rightarrow> Inr (map (\<lambda>r. of_int r - c) xs)
      | MapObject _ \<Rightarrow> Inl TypeError)"

text \<open>\<^verbatim>\<open>np.arange(n)\<close> for a float \<open>n\<close>: \<open>0, 1, \<dots>\<close> below \<open>n\<close>, none when \<open>n \<le> 0\<close>.\<close>

definition np_arange :: "rat \<Rightarrow> rat list" where
  "np_arange n = map of_nat [0..<nat \<lceil>n\<rceil>]"

text \<open>
  Modelled from the spec: \<^verbatim>\<open>binblockread\<close> belongs to the generic instrument layer,
  which is not in this file of the driver. The spec has it read a length-prefixed block
  of signed big-endian samples of the given width, 1 or 2 bytes: \<^verbatim>\<open>#\<close>, one digit
  \<open>k\<close>, \<open>k\<close> digits that give the number of payload bytes, then the payload. A block
  that ends early is the link's timeout; a width other than 1 or 2, a length that is
  not a number and a payload that is not a whole number of samples are conversion
  failures.
\<close>

definition be_signed :: "string \<Rightarrow> int" where
  "be_signed bs =
     (let u = foldl (\<lambda>a b. 256 * a + of_char b) (0::int) bs
      in if bs \<noteq> [] \<and> (128::nat) \<le> of_char (hd bs) then u - 256 ^ length bs else u)"

definition frombuffer :: "int \<Rightarrow> string \<Rightarrow> error + int list" where
  "frombuffer width data =
     (if width \<noteq> 1 \<and> width \<noteq> 2 then Inl TypeError
      else if length data mod nat width \<noteq> 0 then Inl ValueError
      else Inr (map (\<lambda>i. be_signed (take (nat width) (drop (i * nat width) data)))
                  [0..<length data div nat width]))"

definition decode_block :: "int \<Rightarrow> string \<Rightarrow> error + int list" where
  "decode_block width bs =
     (case bs of
        [] \<Rightarrow> Inl IOError
      | c # r \<Rightarrow>
          if c \<noteq> CHR ''#'' then Inl IOError
          else (case r of
                  [] \<Rightarrow> Inl IOError
                | k # r' \<Rightarrow>
                    if \<not> is_digit k then Inl ValueError
                    else (let nd = digit_val k; len = take nd r'; rest = drop nd r'
                          in if length len < nd then Inl IOError
                             else if len = [] \<or> \<not> list_all is_digit len then Inl ValueError
                             else if length rest < nat_of_digits len then Inl IOError
                             else frombuffer width (take (nat_of_digits len) rest))))"

definition binblockread :: "int \<Rightarrow> int list io" where
  "binblockread data_width = (\<lambda>d. (decode_block data_width (curve_bytes d), d))"

definition flush_input :: "unit io" where
  "flush_input = io_return ()"

text \<open>
  Modelled from the spec: \<^verbatim>\<open>with self:\<close> runs \<^verbatim>\<open>__enter__\<close> and \<^verbatim>\<open>__exit__\<close> of the
  abstract data source, which is not in this file of the driver. The spec has the read
  select this data source for its own duration only: on entry the source that is
  selected is read and, when it is another one, this one is selected; on exit, success
  or failure, the other one is selected again.
\<close>

definition ds_enter :: "source \<Rightarrow> source option io" where
  "ds_enter self =
     io_bind get_data_source (\<lambda>old.
       if old \<noteq> self then io_bind (set_data_source self) (\<lambda>_. io_return (Some old))
       else io_return None)"

definition ds_exit :: "source option \<Rightarrow> unit io" where
  "ds_exit old = (case old of None \<Rightarrow> io_return () | Some s \<Rightarrow> set_data_source s)"

definition with_source :: "source \<Rightarrow> 'a io \<Rightarrow> 'a io" where
  "with_source self body =
     (\<lambda>d. case ds_enter self d of
             (Inl e, d1) \<Rightarrow> (Inl e, d1)
           | (Inr old, d1) \<Rightarrow> (case body d1 of (r, d2) \<Rightarrow> (r, snd (ds_exit old d2))))"

text \<open>
  \<^verbatim>\<open>_TekTDS224DataSource.read_waveform\<close>. \<open>read_raw\<close> is lines 73 to 90, the transfer of
  the samples; \<open>rescale\<close> is line 99 and \<open>time_axis\<close> line 108, each in Python's order
  of evaluation.
\<close>

definition read_raw :: "bool \<Rightarrow> ndarray io" where
  "read_raw bin_format =
     (if \<not> bin_format
      then io_bind (sendcmd ''DAT:ENC ASCI'') (\<lambda>_.
           io_bind (query ''CURVE?'') (\<lambda>raw.
           io_return (MapObject (split CHR '','' raw))))
      else io_bind (sendcmd ''DAT:ENC RIB'') (\<lambda>_.
           io_bind get_data_width (\<lambda>data_width.
           io_bind (sendcmd ''CURVE?'') (\<lambda>_.
           io_bind (binblockread data_width) (\<lambda>raw.
           io_bind flush_input (\<lambda>_.
           io_return (IntArray raw)))))))"

definition rescale :: "ndarray \<Rightarrow> string \<Rightarrow> string \<Rightarrow> string \<Rightarrow> rat list io" where
  "rescale raw yoffs ymult yzero =
     io_bind (io_lift ValueError (py_float yoffs)) (\<lambda>c.
     io_bind (\<lambda>d. (nd_sub raw c, d)) (\<lambda>t.
     io_bind (io_lift ValueError (py_float ymult)) (\<lambda>m.
     io_bind (io_lift ValueError (py_float yzero)) (\<lambda>z.
     io_return (map (\<lambda>v. v + z) (map (\<lambda>v. v * m) t))))))"

definition time_axis :: "string \<Rightarrow> string \<Rightarrow> string \<Rightarrow> rat list io" where
  "time_axis ptcnt xincr xzero =
     io_bind (io_lift ValueError (py_float ptcnt)) (\<lambda>n.
     io_bind (io_lift ValueError (py_float xincr)) (\<lambda>i.
     io_bind (io_lift ValueError (py_float xzero)) (\<lambda>z.
     io_return (map (\<lambda>t. t + z) (map (\<lambda>t. t * i) (np_arange n))))))"

definition read_waveform :: "source \<Rightarrow> bool \<Rightarrow> (rat list \<times> rat list) io" where
  "read_waveform self bin_format =
     with_source self
       (io_bind (read_raw bin_format) (\<lambda>raw.
        io_bind (query (''WFMP:'' @ name_of self @ '':YOF?'')) (\<lambda>yoffs.
        io_bind (query (''WFMP:'' @ name_of self @ '':YMU?'')) (\<lambda>ymult.
        io_bind (query (''WFMP:'' @ name_of self @ '':YZE?'')) (\<lambda>yzero.
        io_bind (rescale raw yoffs ymult yzero) (\<lambda>y.
        io_bind (query ''WFMP:XZE?'') (\<lambda>xzero.
        io_bind (query ''WFMP:XIN?'') (\<lambda>xincr.
        io_bind (query (''WFMP:'' @ name_of self @ '':NR_P?'')) (\<lambda>ptcnt.
        io_bind (time_axis ptcnt xincr xzero) (\<lambda>x.
        io_return (x, y)))))))))))"

section \<open>Concrete instruments\<close>

text \<open>
  A TDS 224 with channel 2 selected, two-byte samples, and a three-point record
  \<open>[10, 20, 30]\<close> on channel 1, whose preamble is offset 5, multiplier 2.0, zero 0.0,
  three points, one microsecond apart.
\<close>

definition scope0 :: device where
  "scope0 =
     \<lparr>sent = [],
      regs = map_of
        [(''DAT:SOU'', ''CH2''), (''DATA:WIDTH'', ''2''),
         (''WFMP:CH1:YOF'', ''5''), (''WFMP:CH1:YMU'', ''2.0''), (''WFMP:CH1:YZE'', ''0.0''),
         (''WFMP:XZE'', ''0''), (''WFMP:XIN'', ''1e-6''), (''WFMP:CH1:NR_P'', ''3''),
         (''CH1:COUPL'', ''DC''), (''MEASU:IMM:VAL'', ''1.0E3''),
         (''MEASU'', ''FREQ;Hz;CH1;MEAN;V;CH2'')],
      curve_text = ''10,20,30'',
      curve_bytes = [CHR ''#'', CHR ''1'', CHR ''6'',
                     CHR 0x00, CHR 0x0A, CHR 0x00, CHR 0x14, CHR 0x00, CHR 0x1E]\<rparr>"

text \<open>The same instrument, reporting five points for the three-sample record.\<close>

definition scope1 :: device where
  "scope1 = scope0\<lparr>regs := (regs scope0)(''WFMP:CH1:NR_P'' \<mapsto> ''5'')\<rparr>"

text \<open>The same instrument with the math trace selected.\<close>

definition scope2 :: device where
  "scope2 = scope0\<lparr>regs := (regs scope0)(''DAT:SOU'' \<mapsto> ''MATH'')\<rparr>"

section \<open>Properties\<close>

lemma str_int_1: "str_int 1 = ''1''"
  by code_simp

lemma str_int_2: "str_int 2 = ''2''"
  by code_simp

lemma py_int_1: "py_int ''1'' = Some 1"
  by code_simp

lemma py_int_2: "py_int ''2'' = Some 2"
  by code_simp

lemma set_data_width_valid:
  assumes "n = 1 \<or> n = 2"
  shows "set_data_width n d =
           (Inr (), d\<lparr>sent := sent d @ [''DATA:WIDTH '' @ str_int n],
                      regs := (regs d)(''DATA:WIDTH'' \<mapsto> str_int n)\<rparr>)"
  using assms by (auto simp: set_data_width_def sendcmd_def store_def)

lemma get_data_width_reg:
  assumes "regs d ''DATA:WIDTH'' = Some r" and "py_int r = Some n"
  shows "get_data_width d = (Inr n, d\<lparr>sent := sent d @ [''DATA:WIDTH?'']\<rparr>)"
  using assms
  by (simp add: get_data_width_def io_bind_def query_def answer_def io_lift_def io_return_def)

text \<open>
  Claim C5. Setting the data width to 1 or 2 sends \<^verbatim>\<open>DATA:WIDTH <n>\<close> and nothing
  else, and a get that follows returns the value that was set. Setting any other integer
  raises \<^verbatim>\<open>ValueError\<close> and leaves the link and the instrument as they were: no command
  is sent.
\<close>

theorem data_width_roundtrip:
  "(n = 1 \<or> n = 2 \<longrightarrow>
      (\<exists>d'. set_data_width n d = (Inr (), d')
            \<and> sent d' = sent d @ [''DATA:WIDTH '' @ str_int n]
            \<and> fst (get_data_width d') = Inr n))
   \<and> (n \<noteq> 1 \<and> n \<noteq> 2 \<longrightarrow> set_data_width n d = (Inl ValueError, d))"
proof (intro conjI impI)
  assume n: "n = 1 \<or> n = 2"
  let ?d' = "d\<lparr>sent := sent d @ [''DATA:WIDTH '' @ str_int n],
               regs := (regs d)(''DATA:WIDTH'' \<mapsto> str_int n)\<rparr>"
  have parse: "py_int (str_int n) = Some n"
    using n py_int_1 py_int_2 str_int_1 str_int_2 by auto
  have "fst (get_data_width ?d') = Inr n"
    by (subst get_data_width_reg [where r = "str_int n" and n = n]) (simp_all add: parse)
  with set_data_width_valid [OF n, of d]
  show "\<exists>d'. set_data_width n d = (Inr (), d')
            \<and> sent d' = sent d @ [''DATA:WIDTH '' @ str_int n]
            \<and> fst (get_data_width d') = Inr n"
    by simp
next
  assume "n \<noteq> 1 \<and> n \<noteq> 2"
  then show "set_data_width n d = (Inl ValueError, d)"
    by (simp add: set_data_width_def io_raise_def)
qed

theorem data_width_roundtrip_witness:
  "(\<exists>d'. set_data_width 2 scope0 = (Inr (), d')
         \<and> sent d' = sent scope0 @ [''DATA:WIDTH 2'']
         \<and> fst (get_data_width d') = Inr 2)
   \<and> set_data_width 3 scope0 = (Inl ValueError, scope0)"
  using data_width_roundtrip [of 2 scope0] data_width_roundtrip [of 3 scope0]
  by (simp add: str_int_2)

subsection \<open>Coupling\<close>

lemma digit_char_in: "digit_char n \<in> set ''0123456789''"
  unfolding digit_char_def by (rule nth_mem) simp

lemma digits_chars: "set (digits n) \<subseteq> set ''0123456789''"
proof (induction n rule: digits.induct)
  case (1 n)
  show ?case
  proof (cases "n < 10")
    case True
    then show ?thesis using digit_char_in [of n] by (subst digits.simps) simp
  next
    case False
    then show ?thesis using 1 digit_char_in [of n] by (subst digits.simps) simp
  qed
qed

lemma str_int_no_space: "CHR '' '' \<notin> set (str_int n)"
  using digits_chars [of "nat n"] digits_chars [of "nat (- n)"]
  by (auto simp: str_int_def)

lemma str_int_no_space_ball: "\<forall>x\<in>set (str_int n). x \<noteq> CHR '' ''"
  using str_int_no_space by metis

lemma store_coupling:
  "store (''CH'' @ str_int idx @ '':COUPL '' @ v) d =
     d\<lparr>regs := (regs d)(''CH'' @ str_int idx @ '':COUPL'' \<mapsto> v)\<rparr>"
  using str_int_no_space_ball [of idx]
  by (simp add: store_def takeWhile_append2 dropWhile_append2)

lemma query_coupling:
  "query (''CH'' @ str_int idx @ '':COUPL?'') d =
     (case regs d (''CH'' @ str_int idx @ '':COUPL'') of None \<Rightarrow> Inl IOError | Some r \<Rightarrow> Inr r,
      d\<lparr>sent := sent d @ [''CH'' @ str_int idx @ '':COUPL?'']\<rparr>)"
  by (simp add: query_def answer_def butlast_append)

lemma Coupling_of_value: "Coupling_of (Coupling_value c) = Some c"
  by (cases c) (simp_all add: Coupling_of_def)

text \<open>
  Claim C6. Setting the coupling of a channel to a member of the enumeration (\<open>ac\<close>,
  \<open>dc\<close>, \<open>ground\<close>) sends \<^verbatim>\<open>CH<n>:COUPL <value>\<close> and nothing else, and a get that
  follows returns that member. Setting a value that is not a member raises
  \<^verbatim>\<open>TypeError\<close> and leaves the link and the instrument as they were: no command is
  sent.
\<close>

theorem coupling_roundtrip:
  "(\<exists>d'. set_coupling idx (PyCoupling c) d = (Inr (), d')
         \<and> sent d' = sent d @ [''CH'' @ str_int idx @ '':COUPL '' @ Coupling_value c]
         \<and> fst (get_coupling idx d') = Inr c)
   \<and> ((\<forall>c. v \<noteq> PyCoupling c) \<longrightarrow> set_coupling idx v d = (Inl TypeError, d))"
proof (intro conjI impI)
  let ?cmd = "''CH'' @ str_int idx @ '':COUPL '' @ Coupling_value c"
  let ?d' = "store ?cmd (d\<lparr>sent := sent d @ [?cmd]\<rparr>)"
  have set: "set_coupling idx (PyCoupling c) d = (Inr (), ?d')"
    by (simp add: set_coupling_def sendcmd_def)
  have log: "sent ?d' = sent d @ [?cmd]"
    by (simp only: store_coupling) simp
  have reg: "regs ?d' (''CH'' @ str_int idx @ '':COUPL'') = Some (Coupling_value c)"
    by (simp only: store_coupling) simp
  have get: "fst (get_coupling idx ?d') = Inr c"
    by (simp add: get_coupling_def io_bind_def query_coupling reg io_lift_def
        Coupling_of_value io_return_def del: append.simps)
  from set log get
  show "\<exists>d'. set_coupling idx (PyCoupling c) d = (Inr (), d')
         \<and> sent d' = sent d @ [?cmd] \<and> fst (get_coupling idx d') = Inr c"
    by blast
next
  assume "\<forall>c. v \<noteq> PyCoupling c"
  then show "set_coupling idx v d = (Inl TypeError, d)"
    by (cases v) (simp_all add: set_coupling_def io_raise_def)
qed

theorem coupling_roundtrip_witness:
  "(\<exists>d'. set_coupling 1 (PyCoupling ground) scope0 = (Inr (), d')
         \<and> sent d' = sent scope0 @ [''CH1:COUPL GND'']
         \<and> fst (get_coupling 1 d') = Inr ground)
   \<and> set_coupling 1 (PyStr ''GND'') scope0 = (Inl TypeError, scope0)"
  using coupling_roundtrip [of 1 ground scope0 "PyStr ''GND''"]
  by (simp add: str_int_1)

subsection \<open>Waveform acquisition\<close>

lemma answer_sent [simp]: "answer (d\<lparr>sent := s\<rparr>) q = answer d q"
  by (simp add: answer_def)

lemma query_hit: "answer d q = Some r \<Longrightarrow> query q d = (Inr r, d\<lparr>sent := sent d @ [q]\<rparr>)"
  by (simp add: query_def)

lemma answer_wfmp:
  "answer d (''WFMP:'' @ nm @ '':YOF?'') = regs d (''WFMP:'' @ nm @ '':YOF'')"
  "answer d (''WFMP:'' @ nm @ '':YMU?'') = regs d (''WFMP:'' @ nm @ '':YMU'')"
  "answer d (''WFMP:'' @ nm @ '':YZE?'') = regs d (''WFMP:'' @ nm @ '':YZE'')"
  "answer d (''WFMP:'' @ nm @ '':NR_P?'') = regs d (''WFMP:'' @ nm @ '':NR_P'')"
  "answer d ''WFMP:XZE?'' = regs d ''WFMP:XZE''"
  "answer d ''WFMP:XIN?'' = regs d ''WFMP:XIN''"
  by (simp_all add: answer_def butlast_append)

lemma read_waveform_returns:
  assumes ent: "ds_enter self d = (Inr old, d1)"
    and raw: "read_raw b d1 = (Inr (IntArray raw), d2)"
    and yof: "regs d2 (''WFMP:'' @ name_of self @ '':YOF'') = Some yoffs" "py_float yoffs = Some c"
    and ymu: "regs d2 (''WFMP:'' @ name_of self @ '':YMU'') = Some ymult" "py_float ymult = Some m"
    and yze: "regs d2 (''WFMP:'' @ name_of self @ '':YZE'') = Some yzero" "py_float yzero = Some z"
    and xze: "regs d2 ''WFMP:XZE'' = Some xzero" "py_float xzero = Some xz"
    and xin: "regs d2 ''WFMP:XIN'' = Some xincr" "py_float xincr = Some xi"
    and nrp: "regs d2 (''WFMP:'' @ name_of self @ '':NR_P'') = Some ptcnt" "py_float ptcnt = Some n"
  shows "fst (read_waveform self b d) =
           Inr (map (\<lambda>t. t * xi + xz) (np_arange n), map (\<lambda>r. (of_int r - c) * m + z) raw)"
proof -
  let ?nm = "name_of self"
  let ?q1 = "''WFMP:'' @ ?nm @ '':YOF?''"
  let ?q2 = "''WFMP:'' @ ?nm @ '':YMU?''"
  let ?q3 = "''WFMP:'' @ ?nm @ '':YZE?''"
  let ?q6 = "''WFMP:'' @ ?nm @ '':NR_P?''"
  have resc: "rescale (IntArray raw) yoffs ymult yzero s =
      (Inr (map (\<lambda>r. (of_int r - c) * m + z) raw), s)" for s
    using yof(2) ymu(2) yze(2)
    by (simp add: rescale_def io_bind_def io_lift_def io_return_def nd_sub_def o_def)
  have tax: "time_axis ptcnt xincr xzero s = (Inr (map (\<lambda>t. t * xi + xz) (np_arange n)), s)" for s
    using xze(2) xin(2) nrp(2)
    by (simp add: time_axis_def io_bind_def io_lift_def io_return_def o_def)
  have q1: "query ?q1 d2 = (Inr yoffs, d2\<lparr>sent := sent d2 @ [?q1]\<rparr>)"
    by (rule query_hit) (simp only: answer_wfmp yof)
  have q2: "query ?q2 (d2\<lparr>sent := s\<rparr>) = (Inr ymult, d2\<lparr>sent := s @ [?q2]\<rparr>)" for s
    using query_hit [of "d2\<lparr>sent := s\<rparr>" ?q2 ymult] by (simp add: answer_wfmp ymu del: append.simps)
  have q3: "query ?q3 (d2\<lparr>sent := s\<rparr>) = (Inr yzero, d2\<lparr>sent := s @ [?q3]\<rparr>)" for s
    using query_hit [of "d2\<lparr>sent := s\<rparr>" ?q3 yzero] by (simp add: answer_wfmp yze del: append.simps)
  have q4: "query ''WFMP:XZE?'' (d2\<lparr>sent := s\<rparr>) = (Inr xzero, d2\<lparr>sent := s @ [''WFMP:XZE?'']\<rparr>)" for s
    using query_hit [of "d2\<lparr>sent := s\<rparr>" "''WFMP:XZE?''" xzero] by (simp add: answer_wfmp xze)
  have q5: "query ''WFMP:XIN?'' (d2\<lparr>sent := s\<rparr>) = (Inr xincr, d2\<lparr>sent := s @ [''WFMP:XIN?'']\<rparr>)" for s
    using query_hit [of "d2\<lparr>sent := s\<rparr>" "''WFMP:XIN?''" xincr] by (simp add: answer_wfmp xin)
  have q6: "query ?q6 (d2\<lparr>sent := s\<rparr>) = (Inr ptcnt, d2\<lparr>sent := s @ [?q6]\<rparr>)" for s
    using query_hit [of "d2\<lparr>sent := s\<rparr>" ?q6 ptcnt] by (simp add: answer_wfmp nrp del: append.simps)
  show ?thesis
    unfolding read_waveform_def with_source_def
    by (simp add: ent io_bind_def raw q1 q2 q3 q4 q5 q6 resc tax io_return_def del: append.simps)
qed

lemma scope0_enter:
  "ds_enter (new_Channel 0) scope0 =
     (Inr (Some (Channel ''CH2'' 2)), snd (ds_enter (new_Channel 0) scope0))"
proof -
  have "fst (ds_enter (new_Channel 0) scope0) = Inr (Some (Channel ''CH2'' 2))"
    by code_simp
  then show ?thesis by (simp add: prod_eq_iff)
qed

lemma scope0_raw:
  "read_raw True (snd (ds_enter (new_Channel 0) scope0)) =
     (Inr (IntArray [10, 20, 30]),
      snd (read_raw True (snd (ds_enter (new_Channel 0) scope0))))"
proof -
  have "fst (read_raw True (snd (ds_enter (new_Channel 0) scope0))) = Inr (IntArray [10, 20, 30])"
    by code_simp
  then show ?thesis by (simp add: prod_eq_iff)
qed

lemma scope0_regs:
  "regs (snd (read_raw True (snd (ds_enter (new_Channel 0) scope0))))
     (''WFMP:'' @ name_of (new_Channel 0) @ '':YOF'') = Some ''5''"
  "regs (snd (read_raw True (snd (ds_enter (new_Channel 0) scope0))))
     (''WFMP:'' @ name_of (new_Channel 0) @ '':YMU'') = Some ''2.0''"
  "regs (snd (read_raw True (snd (ds_enter (new_Channel 0) scope0))))
     (''WFMP:'' @ name_of (new_Channel 0) @ '':YZE'') = Some ''0.0''"
  "regs (snd (read_raw True (snd (ds_enter (new_Channel 0) scope0)))) ''WFMP:XZE'' = Some ''0''"
  "regs (snd (read_raw True (snd (ds_enter (new_Channel 0) scope0)))) ''WFMP:XIN'' = Some ''1e-6''"
  "regs (snd (read_raw True (snd (ds_enter (new_Channel 0) scope0))))
     (''WFMP:'' @ name_of (new_Channel 0) @ '':NR_P'') = Some ''3''"
  by code_simp+

lemma py_float_examples:
  "py_float ''5'' = Some 5" "py_float ''2.0'' = Some 2" "py_float ''0.0'' = Some 0"
  "py_float ''0'' = Some 0" "py_float ''1e-6'' = Some (1 / 1000000)" "py_float ''3'' = Some 3"
  by code_simp+

lemma np_arange_nat: "np_arange (of_nat n) = map of_nat [0..<n]"
  by (simp add: np_arange_def)

lemma py_float_3: "py_float ''3'' = Some (of_nat 3)"
  by code_simp

lemma io_bind_InrE:
  assumes "io_bind m f d = (Inr v, d')"
  obtains x d1 where "m d = (Inr x, d1)" and "f x d1 = (Inr v, d')"
  using assms by (auto simp: io_bind_def split: prod.splits sum.splits)

lemma io_lift_InrE:
  assumes "io_lift e v d = (Inr x, d')"
  obtains "v = Some x" and "d' = d"
  using assms by (auto simp: io_lift_def io_raise_def io_return_def split: option.splits)

lemma query_InrE:
  assumes "query q d = (Inr r, d')"
  obtains "answer d q = Some r" and "d' = d\<lparr>sent := sent d @ [q]\<rparr>"
  using assms by (auto simp: query_def split: option.splits)

lemma rescale_InrE:
  assumes "rescale a yoffs ymult yzero d = (Inr y, d')"
  obtains raw where "a = IntArray raw" and "length y = length raw"
  using assms
  by (auto simp: rescale_def nd_sub_def io_raise_def io_return_def
      elim!: io_bind_InrE io_lift_InrE split: ndarray.splits)

lemma read_raw_ascii:
  assumes "read_raw False d = (Inr a, d')"
  obtains toks where "a = MapObject toks"
  using assms
  by (auto simp: read_raw_def io_return_def elim!: io_bind_InrE)

lemma time_axis_InrE:
  assumes "time_axis ptcnt xincr xzero d = (Inr x, d')"
  obtains n where "py_float ptcnt = Some n" and "length x = nat \<lceil>n\<rceil>"
  using assms
  by (auto simp: time_axis_def np_arange_def io_return_def elim!: io_bind_InrE io_lift_InrE)

lemma with_source_InrE:
  assumes "with_source self body d = (Inr v, d')"
  obtains old d1 d2 where "ds_enter self d = (Inr old, d1)" and "body d1 = (Inr v, d2)"
  using assms by (auto simp: with_source_def split: prod.splits sum.splits)

lemma read_waveform_success:
  assumes "read_waveform self b d = (Inr (x, y), d')"
  shows "\<exists>old d1 raw d2 ptcnt n.
           ds_enter self d = (Inr old, d1)
         \<and> read_raw b d1 = (Inr (IntArray raw), d2)
         \<and> regs d2 (''WFMP:'' @ name_of self @ '':NR_P'') = Some ptcnt
         \<and> py_float ptcnt = Some n
         \<and> length y = length raw \<and> length x = nat \<lceil>n\<rceil>"
proof -
  from assms obtain old d1 d3 where
    ent: "ds_enter self d = (Inr old, d1)" and
    body: "io_bind (read_raw b) (\<lambda>raw.
        io_bind (query (''WFMP:'' @ name_of self @ '':YOF?'')) (\<lambda>yoffs.
        io_bind (query (''WFMP:'' @ name_of self @ '':YMU?'')) (\<lambda>ymult.
        io_bind (query (''WFMP:'' @ name_of self @ '':YZE?'')) (\<lambda>yzero.
        io_bind (rescale raw yoffs ymult yzero) (\<lambda>y.
        io_bind (query ''WFMP:XZE?'') (\<lambda>xzero.
        io_bind (query ''WFMP:XIN?'') (\<lambda>xincr.
        io_bind (query (''WFMP:'' @ name_of self @ '':NR_P?'')) (\<lambda>ptcnt.
        io_bind (time_axis ptcnt xincr xzero) (\<lambda>x.
        io_return (x, y)))))))))) d1 = (Inr (x, y), d3)"
    unfolding read_waveform_def by (elim with_source_InrE)
  from body obtain a d2 yoffs ymult yzero y' e1 e2 e3 e4 e5 e6 e7 xzero xincr ptcnt x' e8 where
    raw: "read_raw b d1 = (Inr a, d2)" and
    q1: "query (''WFMP:'' @ name_of self @ '':YOF?'') d2 = (Inr yoffs, e1)" and
    q2: "query (''WFMP:'' @ name_of self @ '':YMU?'') e1 = (Inr ymult, e2)" and
    q3: "query (''WFMP:'' @ name_of self @ '':YZE?'') e2 = (Inr yzero, e3)" and
    resc: "rescale a yoffs ymult yzero e3 = (Inr y', e4)" and
    q4: "query ''WFMP:XZE?'' e4 = (Inr xzero, e5)" and
    q5: "query ''WFMP:XIN?'' e5 = (Inr xincr, e6)" and
    q6: "query (''WFMP:'' @ name_of self @ '':NR_P?'') e6 = (Inr ptcnt, e7)" and
    tax: "time_axis ptcnt xincr xzero e7 = (Inr x', e8)" and
    fin: "io_return (x', y') e8 = (Inr (x, y), d3)"
    by (elim io_bind_InrE) blast
  from fin have xy: "x' = x" "y' = y" by (simp_all add: io_return_def)
  from resc obtain rs where a: "a = IntArray rs" and ly: "length y' = length rs"
    by (elim rescale_InrE)
  from tax obtain n where n: "py_float ptcnt = Some n" and lx: "length x' = nat \<lceil>n\<rceil>"
    by (elim time_axis_InrE)
  have regs_same: "regs e6 = regs d2"
    using q1 q2 q3 resc q4 q5
    by (auto elim!: query_InrE simp: rescale_def io_return_def elim!: io_bind_InrE io_lift_InrE)
  from q6 have "regs e6 (''WFMP:'' @ name_of self @ '':NR_P'') = Some ptcnt"
    by (elim query_InrE) (simp add: answer_def butlast_append)
  with regs_same have "regs d2 (''WFMP:'' @ name_of self @ '':NR_P'') = Some ptcnt" by simp
  with ent raw a n ly lx xy show ?thesis by blast
qed

lemma read_waveform_ascii_fails: "fst (read_waveform self False d) \<noteq> Inr r"
proof
  assume "fst (read_waveform self False d) = Inr r"
  then have "read_waveform self False d = (Inr (fst r, snd r), snd (read_waveform self False d))"
    by (simp add: prod_eq_iff)
  from read_waveform_success [OF this] obtain d1 raw d2 where
    "read_raw False d1 = (Inr (IntArray raw), d2)" by blast
  then show False by (elim read_raw_ascii) simp
qed

text \<open>
  Claim C1. Whenever the transfer has produced a raw sample sequence \<open>raw\<close> and the
  instrument's replies for the vertical offset, multiplier and zero of the source are the
  numbers \<open>c\<close>, \<open>m\<close> and \<open>z\<close> (and its three horizontal replies are numbers too),
  \<open>read_waveform\<close> returns, and the voltage sequence it returns has the length of
  \<open>raw\<close> and \<open>(raw[i] - c) * m + z\<close> at every index \<open>i\<close>.
\<close>

theorem waveform_voltage_law:
  assumes "ds_enter self d = (Inr old, d1)"
    and "read_raw b d1 = (Inr (IntArray raw), d2)"
    and "regs d2 (''WFMP:'' @ name_of self @ '':YOF'') = Some yoffs" "py_float yoffs = Some c"
    and "regs d2 (''WFMP:'' @ name_of self @ '':YMU'') = Some ymult" "py_float ymult = Some m"
    and "regs d2 (''WFMP:'' @ name_of self @ '':YZE'') = Some yzero" "py_float yzero = Some z"
    and "regs d2 ''WFMP:XZE'' = Some xzero" "py_float xzero = Some xz"
    and "regs d2 ''WFMP:XIN'' = Some xincr" "py_float xincr = Some xi"
    and "regs d2 (''WFMP:'' @ name_of self @ '':NR_P'') = Some ptcnt" "py_float ptcnt = Some n"
  shows "\<exists>x y. fst (read_waveform self b d) = Inr (x, y) \<and> length y = length raw
           \<and> (\<forall>i<length raw. y ! i = (of_int (raw ! i) - c) * m + z)"
  using read_waveform_returns [OF assms] by simp

theorem waveform_voltage_law_witness:
  "\<exists>x y. fst (read_waveform (new_Channel 0) True scope0) = Inr (x, y)
      \<and> length y = length [10, 20, 30 :: int]
      \<and> (\<forall>i<length [10, 20, 30 :: int]. y ! i = (of_int ([10, 20, 30] ! i) - 5) * 2 + 0)"
  by (rule waveform_voltage_law [OF scope0_enter scope0_raw
        scope0_regs(1) py_float_examples(1) scope0_regs(2) py_float_examples(2)
        scope0_regs(3) py_float_examples(3) scope0_regs(4) py_float_examples(4)
        scope0_regs(5) py_float_examples(5) scope0_regs(6) py_float_examples(6)])


text \<open>
  Claim C2. Under the same conditions, when the instrument reports the point count
  \<open>n\<close>, the increment \<open>xi\<close> and the zero \<open>xz\<close>, the time sequence that
  \<open>read_waveform\<close> returns has length \<open>n\<close> and \<open>i * xi + xz\<close> at every index
  \<open>i < n\<close>.
\<close>

theorem waveform_time_axis:
  assumes "ds_enter self d = (Inr old, d1)"
    and "read_raw b d1 = (Inr (IntArray raw), d2)"
    and "regs d2 (''WFMP:'' @ name_of self @ '':YOF'') = Some yoffs" "py_float yoffs = Some c"
    and "regs d2 (''WFMP:'' @ name_of self @ '':YMU'') = Some ymult" "py_float ymult = Some m"
    and "regs d2 (''WFMP:'' @ name_of self @ '':YZE'') = Some yzero" "py_float yzero = Some z"
    and "regs d2 ''WFMP:XZE'' = Some xzero" "py_float xzero = Some xz"
    and "regs d2 ''WFMP:XIN'' = Some xincr" "py_float xincr = Some xi"
    and "regs d2 (''WFMP:'' @ name_of self @ '':NR_P'') = Some ptcnt"
        "py_float ptcnt = Some (of_nat n)"
  shows "\<exists>x y. fst (read_waveform self b d) = Inr (x, y) \<and> length x = n
           \<and> (\<forall>i<n. x ! i = of_nat i * xi + xz)"
  using read_waveform_returns [OF assms] by (simp add: np_arange_nat)

theorem waveform_time_axis_witness:
  "\<exists>x y. fst (read_waveform (new_Channel 0) True scope0) = Inr (x, y) \<and> length x = 3
      \<and> (\<forall>i<3. x ! i = of_nat i * (1 / 1000000) + 0)"
  by (rule waveform_time_axis [OF scope0_enter scope0_raw
        scope0_regs(1) py_float_examples(1) scope0_regs(2) py_float_examples(2)
        scope0_regs(3) py_float_examples(3) scope0_regs(4) py_float_examples(4)
        scope0_regs(5) py_float_examples(5) scope0_regs(6) py_float_3])

text \<open>
  Claim C3. The ASCII path and the binary path are to return the same waveform for
  replies that carry the same samples. They do not: \<open>scope0\<close> answers \<^verbatim>\<open>CURVE?\<close> with
  the samples 10, 20, 30 in either encoding, the binary read returns the waveform, and
  the ASCII read raises \<^verbatim>\<open>TypeError\<close> at the rescaling (and, by
  \<open>read_waveform_ascii_fails\<close>, it returns for no instrument at all).
\<close>

theorem ascii_transfer_raises:
  "fst (read_waveform (new_Channel 0) False scope0) = Inl TypeError
   \<and> fst (read_waveform (new_Channel 0) True scope0)
       = Inr ([0, 1 / 1000000, 2 / 1000000], [10, 30, 50])"
  by code_simp

text \<open>
  Claim C4, as stated, fails: the time sequence takes its length from the reported point
  count and the voltage sequence from the block of samples, and nothing compares the
  two. \<open>scope1\<close> reports five points for a block of three samples.
\<close>

theorem waveform_lengths_differ:
  "fst (read_waveform (new_Channel 0) True scope1)
     = Inr ([0, 1 / 1000000, 2 / 1000000, 3 / 1000000, 4 / 1000000], [10, 30, 50])
   \<and> length [0, 1 / 1000000, 2 / 1000000, 3 / 1000000, 4 / 1000000 :: rat]
       \<noteq> length [10, 30, 50 :: rat]"
  by code_simp

text \<open>
  Claim C4, amended. For every successful \<open>read_waveform\<close> call, the voltage sequence
  has as many elements as the transferred block has samples, and the time sequence as
  many as the reported point count \<open>n\<close> (rounded up to a whole number, none when it is
  negative); the two lengths are equal exactly when the block holds as many samples as
  the instrument reports.
\<close>

theorem waveform_lengths:
  assumes "read_waveform self b d = (Inr (x, y), d')"
  shows "\<exists>old d1 raw d2 ptcnt n.
           ds_enter self d = (Inr old, d1)
         \<and> read_raw b d1 = (Inr (IntArray raw), d2)
         \<and> regs d2 (''WFMP:'' @ name_of self @ '':NR_P'') = Some ptcnt
         \<and> py_float ptcnt = Some n
         \<and> length y = length raw \<and> length x = nat \<lceil>n\<rceil>
         \<and> (length x = length y \<longleftrightarrow> nat \<lceil>n\<rceil> = length raw)"
proof -
  from read_waveform_success [OF assms] obtain old d1 raw d2 ptcnt n where
    "ds_enter self d = (Inr old, d1)" "read_raw b d1 = (Inr (IntArray raw), d2)"
    "regs d2 (''WFMP:'' @ name_of self @ '':NR_P'') = Some ptcnt" "py_float ptcnt = Some n"
    "length y = length raw" "length x = nat \<lceil>n\<rceil>"
    by blast
  then show ?thesis by auto
qed

lemma scope1_read:
  "read_waveform (new_Channel 0) True scope1
     = (Inr ([0, 1 / 1000000, 2 / 1000000, 3 / 1000000, 4 / 1000000], [10, 30, 50]),
        snd (read_waveform (new_Channel 0) True scope1))"
proof -
  have "fst (read_waveform (new_Channel 0) True scope1)
     = Inr ([0, 1 / 1000000, 2 / 1000000, 3 / 1000000, 4 / 1000000], [10, 30, 50])"
    by code_simp
  then show ?thesis by (simp add: prod_eq_iff)
qed

theorem waveform_lengths_witness:
  "\<exists>old d1 raw d2 ptcnt n.
      ds_enter (new_Channel 0) scope1 = (Inr old, d1)
    \<and> read_raw True d1 = (Inr (IntArray raw), d2)
    \<and> regs d2 (''WFMP:'' @ name_of (new_Channel 0) @ '':NR_P'') = Some ptcnt
    \<and> py_float ptcnt = Some n
    \<and> length [10, 30, 50 :: rat] = length raw
    \<and> length [0, 1 / 1000000, 2 / 1000000, 3 / 1000000, 4 / 1000000 :: rat] = nat \<lceil>n\<rceil>
    \<and> (length [0, 1 / 1000000, 2 / 1000000, 3 / 1000000, 4 / 1000000 :: rat]
          = length [10, 30, 50 :: rat] \<longleftrightarrow> nat \<lceil>n\<rceil> = length raw)"
  by (rule waveform_lengths [OF scope1_read])

subsection \<open>Measurements and the selected source\<close>

lemma store_measu:
  "store (''MEASU:IMM:SOU '' @ a) d = d\<lparr>regs := (regs d)(''MEASU:IMM:SOU'' \<mapsto> a)\<rparr>"
  "store (''MEASU:IMM:TYP '' @ a) d = d\<lparr>regs := (regs d)(''MEASU:IMM:TYP'' \<mapsto> a)\<rparr>"
  by (simp_all add: store_def)

lemma measurement_protocol:
  assumes "regs d ''MEASU:IMM:VAL'' = Some r" and "py_float r = Some v"
  shows "fst (measurement idx meas u d) = Inr (Quantity v u)"
    and "sent (snd (measurement idx meas u d)) =
           sent d @ [''MEASU:IMM:SOU '' @ str_int idx, ''MEASU:IMM:TYP '' @ meas,
                     ''MEASU:IMM:VAL?'']"
  using assms
  by (simp_all add: measurement_def io_bind_def sendcmd_def store_measu query_def answer_def
      io_lift_def io_return_def del: append.simps)

lemma set_measurements_table:
  "set_measurements =
     [(''cyclic_rms'', ''CRM'', pq_V), (''fall_time'', ''FAL'', pq_S),
      (''frequency'', ''FREQ'', pq_Hz), (''maximum'', ''MAXI'', pq_V),
      (''mean'', ''MEAN'', pq_V), (''minimum'', ''MINI'', pq_V),
      (''negative_width'', ''NWI'', pq_S), (''peak_peak'', ''PK2'', pq_V),
      (''period'', ''PERI'', pq_S), (''positive_width'', ''PWI'', pq_S),
      (''rise_time'', ''RIS'', pq_S)]"
  by code_simp

text \<open>
  Claim C7. A measurement call sends the source command, the type command and the value
  query in this order and returns the reply as a float with the unit the catalog has for
  the measurement (\<open>measurement_protocol\<close>, \<open>set_measurements_table\<close>). The claim has
  the units be volts, seconds and hertz; the catalog's unit for the five time
  measurements is \<^verbatim>\<open>pq.S\<close>, the siemens, not \<^verbatim>\<open>pq.s\<close>, the second. Channel 1 of
  \<open>scope0\<close>, asked for its fall time, answers in siemens.
\<close>

theorem fall_time_in_siemens:
  "fst (channel_attr 1 ''fall_time'' scope0) = Inr (Quantity 1000 pq_S)
   \<and> sent (snd (channel_attr 1 ''fall_time'' scope0))
       = [''MEASU:IMM:SOU 1'', ''MEASU:IMM:TYP FAL'', ''MEASU:IMM:VAL?'']
   \<and> pq_S \<noteq> pq_s"
  by code_simp

lemma query_dat_sou:
  "regs d ''DAT:SOU'' = Some name \<Longrightarrow>
     query ''DAT:SOU?'' d = (Inr name, d\<lparr>sent := sent d @ [''DAT:SOU?'']\<rparr>)"
  by (simp add: query_def answer_def)

lemma data_source_getter_no_index:
  assumes "regs d ''DAT:SOU'' = Some name" and "startswith name ''CH''"
    and "py_int (drop 2 name) = None"
  shows "fst (get_data_source d) = Inl ValueError"
  using query_dat_sou [OF assms(1)] assms(2,3)
  by (simp add: get_data_source_def io_bind_def io_lift_def io_raise_def)

text \<open>
  Claim C10. When the reply to \<^verbatim>\<open>DAT:SOU?\<close> starts with \<^verbatim>\<open>CH\<close> and the integer
  after the prefix is \<open>k\<close>, the getter returns the channel with 1-based index \<open>k\<close>;
  when the reply does not start with \<^verbatim>\<open>CH\<close>, it returns a plain data source whose
  name is the reply. (A reply that starts with \<^verbatim>\<open>CH\<close> and has no integer after it
  is a \<^verbatim>\<open>ValueError\<close>, by \<open>data_source_getter_no_index\<close>.)
\<close>

theorem data_source_getter:
  assumes "regs d ''DAT:SOU'' = Some name"
  shows "(startswith name ''CH'' \<and> py_int (drop 2 name) = Some k \<longrightarrow>
            fst (get_data_source d) = Inr (Channel (''CH'' @ str_int k) k))
       \<and> (\<not> startswith name ''CH'' \<longrightarrow> fst (get_data_source d) = Inr (DataSource name))"
  using query_dat_sou [OF assms]
  by (simp add: get_data_source_def io_bind_def io_lift_def io_return_def new_Channel_def
      del: append.simps)

lemma scope_sources:
  "regs scope0 ''DAT:SOU'' = Some ''CH2''" "regs scope2 ''DAT:SOU'' = Some ''MATH''"
  "startswith ''CH2'' ''CH''" "\<not> startswith ''MATH'' ''CH''"
  "py_int (drop 2 ''CH2'') = Some 2" "str_int 2 = ''2''"
  by code_simp+

theorem data_source_getter_witness:
  "fst (get_data_source scope0) = Inr (Channel ''CH2'' 2)
   \<and> fst (get_data_source scope2) = Inr (DataSource ''MATH'')"
  using data_source_getter [OF scope_sources(1), of 2]
        data_source_getter [OF scope_sources(2), of 0]
  using py_int_2 by (simp add: scope_sources(3-6))

subsection \<open>The measurement listing\<close>

lemma digit_val_char: "digit_val (digit_char n) = n mod 10"
proof -
  have "k < 10 \<Longrightarrow> digit_val (''0123456789'' ! k) = k" for k :: nat
  proof -
    assume "k < 10"
    then have "k \<in> {0, 1, 2, 3, 4, 5, 6, 7, 8, 9}" by auto
    then show ?thesis by (auto simp: digit_val_def)
  qed
  then show ?thesis by (simp add: digit_char_def)
qed

lemma nat_of_digits_snoc: "nat_of_digits (xs @ [c]) = 10 * nat_of_digits xs + digit_val c"
  by (simp add: nat_of_digits_def)

lemma nat_of_digits_digits: "nat_of_digits (digits n) = n"
proof (induction n rule: digits.induct)
  case (1 n)
  show ?case
  proof (cases "n < 10")
    case True
    then show ?thesis
      by (subst digits.simps) (simp add: nat_of_digits_def digit_val_char)
  next
    case False
    with 1 show ?thesis
      by (subst digits.simps) (simp add: nat_of_digits_snoc digit_val_char)
  qed
qed

lemma digits_not_Nil: "digits n \<noteq> []"
  by (subst digits.simps) simp

lemma digits_all_digit: "list_all is_digit (digits n)"
  unfolding list_all_iff is_digit_def
proof
  fix c
  assume "c \<in> set (digits n)"
  with digits_chars [of n] show "c \<in> set ''0123456789''" by (rule subsetD)
qed

lemma is_digit_not_space: "is_digit c \<Longrightarrow> \<not> is_space c"
  by (auto simp: is_digit_def is_space_def)

lemma strip_digits:
  assumes "s \<noteq> []" and "list_all is_digit s"
  shows "strip s = s"
proof -
  from assms have h: "\<not> is_space (hd s)" and l: "\<not> is_space (last s)"
    by (auto simp: list_all_iff is_digit_not_space)
  from assms(1) h have 1: "dropWhile is_space s = s" by (cases s) simp_all
  from assms(1) l have 2: "dropWhile is_space (rev s) = rev s"
    by (cases "rev s") (simp_all add: last_rev [symmetric] hd_rev)
  show ?thesis by (simp add: strip_def 1 2)
qed

lemma take_sign_digits:
  assumes "s \<noteq> []" and "list_all is_digit s"
  shows "take_sign s = (False, s)"
  using assms by (cases s) (auto simp: take_sign_def is_digit_def)

lemma py_int_digits: "py_int (digits n) = Some (int n)"
  by (simp add: py_int_def strip_digits take_sign_digits digits_not_Nil digits_all_digit
      nat_of_digits_digits)

lemma takeWhile_all: "list_all P xs \<Longrightarrow> takeWhile P xs = xs"
  by (induction xs) auto

lemma dropWhile_all: "list_all P xs \<Longrightarrow> dropWhile P xs = []"
  by (induction xs) auto

lemma py_float_digits: "py_float (digits n) = Some (of_nat n)"
  by (simp add: py_float_def strip_digits take_sign_digits digits_not_Nil digits_all_digit
      nat_of_digits_digits takeWhile_all dropWhile_all py_exponent_def scale10_def
      nat_of_digits_def [of "[]"])

lemma replace_no_C:
  assumes "CHR ''C'' \<notin> set s"
  shows "replace ''CH'' [] s = s"
  using assms
proof (induction s)
  case Nil
  then show ?case by (subst replace.simps) simp
next
  case (Cons a s)
  then show ?case by (subst replace.simps) auto
qed

lemma replace_CH_digits: "replace ''CH'' [] (CHR ''C'' # CHR ''H'' # digits n) = digits n"
proof -
  have "CHR ''C'' \<notin> set (digits n)" using digits_chars [of n] by auto
  then have "replace ''CH'' [] (digits n) = digits n" by (rule replace_no_C)
  then show ?thesis by (subst replace.simps) simp
qed

lemma no_key:
  "c \<notin> snd ` set xs \<Longrightarrow> [key. (key, value) \<leftarrow> xs, value = c] = []"
  by (induction xs) force+

lemma first_of_distinct:
  "distinct (map snd xs) \<Longrightarrow> (k, c) \<in> set xs \<Longrightarrow>
     [key. (key, value) \<leftarrow> xs, value = c] = [k]"
proof (induction xs)
  case Nil
  then show ?case by simp
next
  case (Cons a xs)
  show ?case
  proof (cases "a = (k, c)")
    case True
    with Cons.prems(1) have "c \<notin> snd ` set xs" by simp
    with True show ?thesis by (simp add: no_key)
  next
    case False
    with Cons.prems have in_xs: "(k, c) \<in> set xs" and d: "distinct (map snd xs)" by simp_all
    from in_xs have "c \<in> snd ` set xs" by force
    with Cons.prems(1) have "snd a \<noteq> c" by auto
    with Cons.IH [OF d in_xs] show ?thesis by (cases a) simp
  qed
qed

lemma MeasurementTypes_codes_distinct: "distinct (map snd MeasurementTypes)"
  by code_simp

lemma first_key:
  "(k, c) \<in> set MeasurementTypes \<Longrightarrow>
     [key. (key, value) \<leftarrow> MeasurementTypes, value = c] = [k]"
  by (rule first_of_distinct [OF MeasurementTypes_codes_distinct])

lemma measurement_rows_ok:
  assumes "\<forall>i\<in>set is. parts ! (i * 3 + 2) = CHR ''C'' # CHR ''H'' # digits (chan i)
                      \<and> (key i, parts ! (i * 3)) \<in> set MeasurementTypes"
  shows "measurement_rows parts is =
           Inr (map (\<lambda>i. \<lparr>channel = of_nat (chan i), measurement_type = key i\<rparr>) is)"
  using assms
proof (induction "is")
  case Nil
  then show ?case by simp
next
  case (Cons i "is")
  from Cons.prems have des: "parts ! (i * 3 + 2) = CHR ''C'' # CHR ''H'' # digits (chan i)"
    and code: "(key i, parts ! (i * 3)) \<in> set MeasurementTypes" by simp_all
  have ch: "py_float (replace ''CH'' [] (parts ! (i * 3 + 2))) = Some (of_nat (chan i))"
    by (simp only: des replace_CH_digits py_float_digits)
  have rest: "measurement_rows parts is =
      Inr (map (\<lambda>i. \<lparr>channel = of_nat (chan i), measurement_type = key i\<rparr>) is)"
    using Cons.IH Cons.prems by simp
  show ?case
    by (simp only: measurement_rows.simps ch first_key [OF code] rest
        option.case list.case sum.case list.map)
qed

lemma query_measu:
  "regs d ''MEASU'' = Some r \<Longrightarrow> query ''MEASU?'' d = (Inr r, d\<lparr>sent := sent d @ [''MEASU?'']\<rparr>)"
  by (simp add: query_def answer_def)

text \<open>
  Claim C8. The reply to \<^verbatim>\<open>MEASU?\<close> is split at the semicolons into groups of three
  fields. When in every group the first field is the code of the catalog name \<open>key i\<close>
  and the third is \<^verbatim>\<open>CH\<close> followed by the digits of \<open>chan i\<close>, the listing has one
  entry for each group, in order, with that channel number and that name. The witness is
  the reply \<^verbatim>\<open>FREQ;Hz;CH1;MEAN;V;CH2\<close>.
\<close>

theorem measurement_listing:
  assumes "regs d ''MEASU'' = Some response"
    and "\<forall>i<length (split CHR '';'' response) div 3.
            split CHR '';'' response ! (i * 3 + 2) = CHR ''C'' # CHR ''H'' # digits (chan i)
          \<and> (key i, split CHR '';'' response ! (i * 3)) \<in> set MeasurementTypes"
  shows "fst (tek_measurement d) =
           Inr (map (\<lambda>i. \<lparr>channel = of_nat (chan i), measurement_type = key i\<rparr>)
                  [0..<length (split CHR '';'' response) div 3])"
proof -
  let ?parts = "split CHR '';'' response"
  have "measurement_rows ?parts [0..<length ?parts div 3] =
          Inr (map (\<lambda>i. \<lparr>channel = of_nat (chan i), measurement_type = key i\<rparr>)
                 [0..<length ?parts div 3])"
    by (rule measurement_rows_ok) (use assms(2) in simp)
  then show ?thesis
    by (simp add: tek_measurement_def io_bind_def query_measu [OF assms(1)] io_return_def)
qed

lemma scope0_measu:
  "regs scope0 ''MEASU'' = Some ''FREQ;Hz;CH1;MEAN;V;CH2''"
  "split CHR '';'' ''FREQ;Hz;CH1;MEAN;V;CH2'' = [''FREQ'', ''Hz'', ''CH1'', ''MEAN'', ''V'', ''CH2'']"
  "digits 1 = ''1''" "digits 2 = ''2''"
  "(''frequency'', ''FREQ'') \<in> set MeasurementTypes"
  "(''mean'', ''MEAN'') \<in> set MeasurementTypes"
  by code_simp+

lemma scope0_groups:
  "length (split CHR '';'' ''FREQ;Hz;CH1;MEAN;V;CH2'') div 3 = 2"
  "split CHR '';'' ''FREQ;Hz;CH1;MEAN;V;CH2'' ! (0 * 3 + 2) = CHR ''C'' # CHR ''H'' # digits 1"
  "(''frequency'', split CHR '';'' ''FREQ;Hz;CH1;MEAN;V;CH2'' ! (0 * 3)) \<in> set MeasurementTypes"
  "split CHR '';'' ''FREQ;Hz;CH1;MEAN;V;CH2'' ! (1 * 3 + 2) = CHR ''C'' # CHR ''H'' # digits 2"
  "(''mean'', split CHR '';'' ''FREQ;Hz;CH1;MEAN;V;CH2'' ! (1 * 3)) \<in> set MeasurementTypes"
  by code_simp+

theorem measurement_listing_witness:
  "fst (tek_measurement scope0) =
     Inr [\<lparr>channel = 1, measurement_type = ''frequency''\<rparr>,
          \<lparr>channel = 2, measurement_type = ''mean''\<rparr>]"
proof -
  define chan :: "nat \<Rightarrow> nat" where "chan = (\<lambda>i. if i = 0 then 1 else 2)"
  define key :: "nat \<Rightarrow> string" where "key = (\<lambda>i. if i = 0 then ''frequency'' else ''mean'')"
  have c0: "chan 0 = 1" and c1: "chan 1 = 2" and k0: "key 0 = ''frequency''" and k1: "key 1 = ''mean''"
    by (simp_all add: chan_def key_def)
  have groups: "\<forall>i<length (split CHR '';'' ''FREQ;Hz;CH1;MEAN;V;CH2'') div 3.
            split CHR '';'' ''FREQ;Hz;CH1;MEAN;V;CH2'' ! (i * 3 + 2)
              = CHR ''C'' # CHR ''H'' # digits (chan i)
          \<and> (key i, split CHR '';'' ''FREQ;Hz;CH1;MEAN;V;CH2'' ! (i * 3)) \<in> set MeasurementTypes"
  proof (intro allI impI)
    fix i :: nat
    assume "i < length (split CHR '';'' ''FREQ;Hz;CH1;MEAN;V;CH2'') div 3"
    then have "i = 0 \<or> i = 1" unfolding scope0_groups(1) by auto
    then show "split CHR '';'' ''FREQ;Hz;CH1;MEAN;V;CH2'' ! (i * 3 + 2)
              = CHR ''C'' # CHR ''H'' # digits (chan i)
          \<and> (key i, split CHR '';'' ''FREQ;Hz;CH1;MEAN;V;CH2'' ! (i * 3)) \<in> set MeasurementTypes"
    proof
      assume "i = 0"
      then show ?thesis using scope0_groups(2,3) by (simp only: c0 k0) 
    next
      assume "i = 1"
      then show ?thesis using scope0_groups(4,5) by (simp only: c1 k1)
    qed
  qed
  have up: "[0..<2] = [0, 1]" by (simp add: numeral_2_eq_2)
  have "fst (tek_measurement scope0) =
      Inr (map (\<lambda>i. \<lparr>channel = of_nat (chan i), measurement_type = key i\<rparr>) [0..<2])"
    using measurement_listing [OF scope0_measu(1) groups] by (simp only: scope0_groups(1))
  then show ?thesis by (simp only: up list.map c0 c1 k0 k1) simp
qed

subsection \<open>The time scale\<close>

lemma scale10_zero [simp]: "scale10 x 0 = x"
  by (simp add: scale10_def)

lemma scale10_step_down:
  assumes "n \<le> 0"
  shows "scale10 (a / 10) n = scale10 a (n - 1)"
proof -
  from assms have "nat (1 - n) = Suc (nat (- n))" by simp
  with assms show ?thesis by (auto simp: scale10_def)
qed

lemma scale10_step_up:
  assumes "0 \<le> n"
  shows "scale10 (a * 10) n = scale10 a (n + 1)"
proof -
  from assms have "nat (n + 1) = Suc (nat n)" by simp
  with assms show ?thesis by (simp add: scale10_def)
qed

lemma norm_up_bounds:
  "1 \<le> a \<Longrightarrow> k \<le> norm_up a k \<and> 1 \<le> scale10 a (k - norm_up a k)
                   \<and> scale10 a (k - norm_up a k) < 10"
proof (induction a k rule: norm_up.induct)
  case (1 a e)
  show ?case
  proof (cases "10 \<le> a")
    case True
    then have "1 \<le> a / 10" by simp
    from "1.IH" [OF True this] have
      ih: "e + 1 \<le> norm_up (a / 10) (e + 1)"
          "1 \<le> scale10 (a / 10) (e + 1 - norm_up (a / 10) (e + 1))"
          "scale10 (a / 10) (e + 1 - norm_up (a / 10) (e + 1)) < 10"
      by simp_all
    have eq: "norm_up a e = norm_up (a / 10) (e + 1)"
      using True by (subst norm_up.simps) simp
    have "scale10 (a / 10) (e + 1 - norm_up (a / 10) (e + 1))
            = scale10 a (e + 1 - norm_up (a / 10) (e + 1) - 1)"
      using ih(1) by (intro scale10_step_down) simp
    with ih show ?thesis by (simp add: eq)
  next
    case False
    then have "norm_up a e = e" by (subst norm_up.simps) simp
    with False "1.prems" show ?thesis by simp
  qed
qed

lemma norm_down_bounds:
  "0 < a \<Longrightarrow> a < 10 \<Longrightarrow> norm_down a k \<le> k \<and> 1 \<le> scale10 a (k - norm_down a k)
                   \<and> scale10 a (k - norm_down a k) < 10"
proof (induction a k rule: norm_down.induct)
  case (1 a e)
  show ?case
  proof (cases "a < 1")
    case True
    with "1.prems" have c: "0 < a \<and> a < 1" and p: "0 < a * 10" "a * 10 < 10" by simp_all
    from "1.IH" [OF c p] have
      ih: "norm_down (a * 10) (e - 1) \<le> e - 1"
          "1 \<le> scale10 (a * 10) (e - 1 - norm_down (a * 10) (e - 1))"
          "scale10 (a * 10) (e - 1 - norm_down (a * 10) (e - 1)) < 10"
      by simp_all
    have eq: "norm_down a e = norm_down (a * 10) (e - 1)"
      using c by (subst norm_down.simps) simp
    have "scale10 (a * 10) (e - 1 - norm_down (a * 10) (e - 1))
            = scale10 a (e - 1 - norm_down (a * 10) (e - 1) + 1)"
      using ih(1) by (intro scale10_step_up) simp
    with ih show ?thesis by (simp add: eq)
  next
    case False
    then have "norm_down a e = e" by (subst norm_down.simps) simp
    with False "1.prems" show ?thesis by simp
  qed
qed

lemma exponent10_bounds:
  assumes "0 < a"
  shows "1 \<le> scale10 a (- exponent10 a)" and "scale10 a (- exponent10 a) < 10"
proof -
  have "1 \<le> scale10 a (- exponent10 a) \<and> scale10 a (- exponent10 a) < 10"
  proof (cases "1 \<le> a")
    case True
    from norm_up_bounds [OF True, of 0] show ?thesis by (simp add: exponent10_def True)
  next
    case False
    with assms have "a < 10" by simp
    from norm_down_bounds [OF assms this, of 0] show ?thesis by (simp add: exponent10_def False)
  qed
  then show "1 \<le> scale10 a (- exponent10 a)" and "scale10 a (- exponent10 a) < 10" by simp_all
qed

lemma scale10_succ: "scale10 a (n + 1) = 10 * scale10 a n"
proof (cases "0 \<le> n")
  case True
  then have "nat (n + 1) = Suc (nat n)" by simp
  with True show ?thesis by (simp add: scale10_def)
next
  case False
  then have "nat (- n) = Suc (nat (- (n + 1)))" by simp
  with False show ?thesis by (auto simp: scale10_def)
qed

lemma round_half_even_bounds:
  "\<lfloor>r\<rfloor> \<le> round_half_even r" "round_half_even r \<le> \<lfloor>r\<rfloor> + 1"
  "\<bar>r - of_int (round_half_even r)\<bar> \<le> 1 / 2"
proof -
  have f: "of_int \<lfloor>r\<rfloor> \<le> r" "r < of_int \<lfloor>r\<rfloor> + 1" by linarith+
  show "\<lfloor>r\<rfloor> \<le> round_half_even r" "round_half_even r \<le> \<lfloor>r\<rfloor> + 1"
    by (simp_all add: round_half_even_def Let_def)
  show "\<bar>r - of_int (round_half_even r)\<bar> \<le> 1 / 2"
    using f by (auto simp: round_half_even_def Let_def abs_le_iff)
qed

lemma scale10_mult: "scale10 x n = x * scale10 1 n"
  by (simp add: scale10_def)

lemma scale10_one_pos: "0 < scale10 1 n"
  by (simp add: scale10_def)

lemma scale10_one_inverse: "scale10 1 n * scale10 1 (- n) = 1"
  by (cases "0 \<le> n") (auto simp: scale10_def)

lemma scale10_back: "scale10 a (1 - e) * scale10 1 (e - 1) = a"
proof -
  have 1: "scale10 a (1 - e) = a * scale10 1 (1 - e)" by (rule scale10_mult)
  have 2: "scale10 1 (1 - e) * scale10 1 (e - 1) = 1"
    using scale10_one_inverse [of "1 - e"] by simp
  show ?thesis by (simp only: 1 mult.assoc 2 mult_1_right)
qed

lemma two_digits:
  fixes m :: int
  assumes "10 \<le> m" and "m \<le> 99"
  shows "1 \<le> nat (m div 10)" and "nat (m div 10) \<le> 9" and "nat (m mod 10) \<le> 9"
    and "(of_nat (10 * nat (m div 10) + nat (m mod 10)) :: rat) = of_int m"
proof -
  from assms show "1 \<le> nat (m div 10)" "nat (m div 10) \<le> 9" "nat (m mod 10) \<le> 9"
    by simp_all
  from assms have "int (10 * nat (m div 10) + nat (m mod 10)) = m" by simp
  then show "(of_nat (10 * nat (m div 10) + nat (m mod 10)) :: rat) = of_int m"
    by (metis of_int_of_nat_eq)
qed

lemma format_1E_shape:
  assumes "x \<noteq> 0"
  shows "\<exists>d1 d2 e. 1 \<le> d1 \<and> d1 \<le> 9 \<and> d2 \<le> 9
           \<and> format_1E x =
               (if x < 0 then ''-'' else [])
               @ [digit_char d1, CHR ''.'', digit_char d2, CHR ''E'']
               @ (if e < 0 then ''-'' else ''+'')
               @ (if length (digits (nat \<bar>e\<bar>)) < 2 then CHR ''0'' # digits (nat \<bar>e\<bar>)
                  else digits (nat \<bar>e\<bar>))
           \<and> \<bar>\<bar>x\<bar> - scale10 (of_nat (10 * d1 + d2)) (e - 1)\<bar> \<le> scale10 (1 / 2) (e - 1)"
proof -
  define a where "a = \<bar>x\<bar>"
  define e0 where "e0 = exponent10 a"
  define r where "r = scale10 a (1 - e0)"
  define m0 where "m0 = round_half_even r"
  define m where "m = (if m0 = 100 then 10 else m0)"
  define e where "e = (if m0 = 100 then e0 + 1 else e0)"
  from assms have apos: "0 < a" by (simp add: a_def)
  have "r = 10 * scale10 a (- e0)"
    using scale10_succ [of a "- e0"] by (simp add: r_def)
  with exponent10_bounds [OF apos] have r: "10 \<le> r" "r < 100" by (simp_all add: e0_def)
  then have fl: "10 \<le> \<lfloor>r\<rfloor>" "\<lfloor>r\<rfloor> \<le> 99" by (simp_all add: le_floor_iff floor_less_iff)
  have m0: "10 \<le> m0" "m0 \<le> 100"
    using fl round_half_even_bounds(1,2) [of r] unfolding m0_def by linarith+
  then have mb: "10 \<le> m" "m \<le> 99" by (auto simp: m_def)
  have err: "\<bar>r - of_int m0\<bar> \<le> 1 / 2"
    using round_half_even_bounds(3) [of r] by (simp add: m0_def)
  have unscale: "a = r * scale10 1 (e0 - 1)"
    using scale10_back [of a e0] by (simp only: r_def)
  have p: "0 < scale10 1 (e0 - 1)" by (rule scale10_one_pos)
  have acc: "\<bar>a - scale10 (of_int m) (e - 1)\<bar> \<le> scale10 (1 / 2) (e - 1)"
  proof (cases "m0 = 100")
    case True
    then have me: "m = 10" "e = e0 + 1" by (simp_all add: m_def e_def)
    have s: "scale10 1 e0 = 10 * scale10 1 (e0 - 1)"
      using scale10_succ [of 1 "e0 - 1"] by simp
    have "\<bar>a - 100 * scale10 1 (e0 - 1)\<bar> = \<bar>r - 100\<bar> * scale10 1 (e0 - 1)"
      using p by (simp add: unscale abs_mult left_diff_distrib [symmetric])
    also have "\<dots> \<le> (1 / 2) * scale10 1 (e0 - 1)"
      using err True p by (intro mult_right_mono) simp_all
    also have "\<dots> \<le> (1 / 2) * (10 * scale10 1 (e0 - 1))" using p by simp
    finally show ?thesis
      by (simp add: me scale10_mult [of 10] scale10_mult [of "1 / 2"] s)
  next
    case False
    then have me: "m = m0" "e = e0" by (simp_all add: m_def e_def)
    have "\<bar>a - of_int m0 * scale10 1 (e0 - 1)\<bar> = \<bar>r - of_int m0\<bar> * scale10 1 (e0 - 1)"
      using p by (simp add: unscale abs_mult left_diff_distrib [symmetric])
    also have "\<dots> \<le> (1 / 2) * scale10 1 (e0 - 1)"
      using err p by (intro mult_right_mono) simp_all
    finally show ?thesis
      by (simp add: me scale10_mult [of "of_int m0"] scale10_mult [of "1 / 2"])
  qed
  have fmt: "format_1E x =
               (if x < 0 then ''-'' else [])
               @ [digit_char (nat (m div 10)), CHR ''.'', digit_char (nat (m mod 10)), CHR ''E'']
               @ (if e < 0 then ''-'' else ''+'')
               @ (if length (digits (nat \<bar>e\<bar>)) < 2 then CHR ''0'' # digits (nat \<bar>e\<bar>)
                  else digits (nat \<bar>e\<bar>))"
    using assms
    by (simp only: format_1E_def Let_def m_def e_def m0_def r_def e0_def a_def if_False)
  from two_digits [OF mb] acc fmt show ?thesis
    unfolding a_def by (metis (no_types, lifting))
qed

lemma format_1E_examples:
  "format_1E (25 / 10000) = ''2.5E-03''"
  "format_1E (5764607523034235 / 2 ^ 61) = ''2.5E-03''"
  "format_1E (125 / 100) = ''1.2E+00''"
  "format_1E (- 995 / 10) = ''-1.0E+02''"
  by code_simp+

lemma time_scale_examples:
  "rescale_s (assume_units (Bare (25 / 10000)) pq_s) = Inr (25 / 10000)"
  "rescale_s (assume_units (Qty (Quantity (5 / 2) pq_ms)) pq_s) = Inr (25 / 10000)"
  "rescale_s (assume_units (Qty (Quantity 1 pq_V)) pq_s) = Inl ValueError"
  "sent scope0 = []"
  by code_simp+

text \<open>
  Claim C9. The time-scale setter takes a time (a bare number counts as seconds),
  brings it to seconds \<open>x\<close> and sends exactly \<^verbatim>\<open>HORizontal:MAIn:SCAle\<close>, a space
  and \<^verbatim>\<open>"{:.1E}".format(x)\<close>. For \<open>x \<noteq> 0\<close> that text is scientific notation with
  one digit after the point: a leading digit \<open>1..9\<close>, a point, one more digit,
  \<^verbatim>\<open>E\<close>, the sign of the exponent and at least two exponent digits, and the number it
  denotes is within half a unit of its last digit of \<open>x\<close>. The witness is the spec's
  scenario: 2.5e-3 seconds is sent as \<^verbatim>\<open>HORizontal:MAIn:SCAle 2.5E-03\<close>.
\<close>

theorem time_scale_command:
  assumes "rescale_s (assume_units new_val pq_s) = Inr x"
  shows "(\<exists>d'. set_time_scale new_val d = (Inr (), d')
            \<and> sent d' = sent d @ [''HORizontal:MAIn:SCAle '' @ format_1E x])
       \<and> (x \<noteq> 0 \<longrightarrow>
            (\<exists>d1 d2 e. 1 \<le> d1 \<and> d1 \<le> 9 \<and> d2 \<le> 9
               \<and> format_1E x =
                   (if x < 0 then ''-'' else [])
                   @ [digit_char d1, CHR ''.'', digit_char d2, CHR ''E'']
                   @ (if e < 0 then ''-'' else ''+'')
                   @ (if length (digits (nat \<bar>e\<bar>)) < 2 then CHR ''0'' # digits (nat \<bar>e\<bar>)
                      else digits (nat \<bar>e\<bar>))
               \<and> \<bar>\<bar>x\<bar> - scale10 (of_nat (10 * d1 + d2)) (e - 1)\<bar>
                     \<le> scale10 (1 / 2) (e - 1)))"
proof (intro conjI impI)
  let ?cmd = "''HORizontal:MAIn:SCAle '' @ format_1E x"
  have "set_time_scale new_val d = (Inr (), store ?cmd (d\<lparr>sent := sent d @ [?cmd]\<rparr>))"
    by (simp add: set_time_scale_def assms sendcmd_def del: append.simps)
  moreover have "sent (store ?cmd (d\<lparr>sent := sent d @ [?cmd]\<rparr>)) = sent d @ [?cmd]"
    by (simp add: store_def)
  ultimately show "\<exists>d'. set_time_scale new_val d = (Inr (), d') \<and> sent d' = sent d @ [?cmd]"
    by blast
next
  assume "x \<noteq> 0"
  then show "\<exists>d1 d2 e. 1 \<le> d1 \<and> d1 \<le> 9 \<and> d2 \<le> 9
               \<and> format_1E x =
                   (if x < 0 then ''-'' else [])
                   @ [digit_char d1, CHR ''.'', digit_char d2, CHR ''E'']
                   @ (if e < 0 then ''-'' else ''+'')
                   @ (if length (digits (nat \<bar>e\<bar>)) < 2 then CHR ''0'' # digits (nat \<bar>e\<bar>)
                      else digits (nat \<bar>e\<bar>))
               \<and> \<bar>\<bar>x\<bar> - scale10 (of_nat (10 * d1 + d2)) (e - 1)\<bar>
                     \<le> scale10 (1 / 2) (e - 1)"
    by (rule format_1E_shape)
qed

theorem time_scale_command_witness:
  "(\<exists>d'. set_time_scale (Bare (25 / 10000)) scope0 = (Inr (), d')
         \<and> sent d' = [''HORizontal:MAIn:SCAle 2.5E-03''])
   \<and> (\<exists>d'. set_time_scale (Qty (Quantity (5 / 2) pq_ms)) scope0 = (Inr (), d')
         \<and> sent d' = [''HORizontal:MAIn:SCAle 2.5E-03''])"
  using time_scale_command [OF time_scale_examples(1), of scope0]
        time_scale_command [OF time_scale_examples(2), of scope0]
  by (simp only: format_1E_examples(1) time_scale_examples(4) append.simps)

end
